theory Spec2Isabelle
  imports Main "HOL-Library.Log_Nat" "HOL-Library.Sublist"
begin

section \<open>Numbers\<close>

text \<open>
  The TypeScript \<open>number\<close> is an IEEE 754 double. A finite double is a sign, a mantissa
  and an exponent, standing for plus or minus \<open>m * 2 ^ e\<close>; it is kept in the one form
  where the mantissa is odd (zero: mantissa 0 and exponent 0), so that equal doubles are
  equal terms. \<open>Fin True 0 0\<close> is the negative zero. The mantissa of a double is below
  \<open>2 ^ 53\<close>, its exponent at least \<open>-1074\<close>, its value below \<open>2 ^ 1024\<close>.
\<close>

datatype number = NaN | Infinity bool | Fin bool nat int

fun is_double :: "number \<Rightarrow> bool" where
  "is_double NaN = True"
| "is_double (Infinity s) = True"
| "is_double (Fin s m e) =
     ((m = 0 \<and> e = 0)
      \<or> (odd m \<and> m < 2 ^ 53 \<and> - 1074 \<le> e \<and> bitlen (int m) + e \<le> 1024))"

function normalise :: "nat \<Rightarrow> int \<Rightarrow> nat \<times> int" where
  "normalise m e =
     (if m = 0 then (0, 0) else if even m then normalise (m div 2) (e + 1) else (m, e))"
  by pat_completeness auto
termination
  by (relation "measure (\<lambda>(m, e). m)") auto

declare normalise.simps [simp del]

text \<open>A magnitude that needs no rounding: overflow to infinity, else the odd-mantissa form.\<close>

definition finish :: "bool \<Rightarrow> nat \<Rightarrow> int \<Rightarrow> number" where
  "finish s m e =
     (case normalise m e of
        (m', e') \<Rightarrow> if bitlen (int m') + e' > 1024 then Infinity s else Fin s m' e')"

text \<open>
  Rounding of the exact value \<open>m * 2 ^ e\<close> to the nearest double, ties to the even
  mantissa: the low \<open>sh\<close> bits are dropped, where \<open>sh\<close> leaves 53 bits and no exponent
  below \<open>-1074\<close>.
\<close>

definition round_dyadic :: "bool \<Rightarrow> nat \<Rightarrow> int \<Rightarrow> number" where
  "round_dyadic s m e =
     (let sh = max (bitlen (int m) - 53) (- 1074 - e) in
      if sh \<le> 0 then finish s m e
      else
        (let d = 2 ^ nat sh; q = m div d; r = m mod d;
             q' = (if 2 * r > d \<or> (2 * r = d \<and> odd q) then q + 1 else q)
         in finish s q' (e + sh)))"

definition signed_int :: "bool \<Rightarrow> nat \<Rightarrow> int" where
  "signed_int s m = (if s then - int m else int m)"

text \<open>A whole-number literal of the source (\<open>0\<close>, \<open>4\<close>, \<open>12\<close>, ...).\<close>

definition number_of_int :: "int \<Rightarrow> number" where
  "number_of_int k = round_dyadic (k < 0) (nat \<bar>k\<bar>) 0"

fun fneg :: "number \<Rightarrow> number" where
  "fneg NaN = NaN"
| "fneg (Infinity s) = Infinity (\<not> s)"
| "fneg (Fin s m e) = Fin (\<not> s) m e"

text \<open>
  \<open>a + b\<close>: the exact sum of two finite doubles is a whole multiple of the smaller unit;
  an exact zero is negative only when both operands are.
\<close>

fun fadd :: "number \<Rightarrow> number \<Rightarrow> number" where
  "fadd NaN b = NaN"
| "fadd a NaN = NaN"
| "fadd (Infinity s1) (Infinity s2) = (if s1 = s2 then Infinity s1 else NaN)"
| "fadd (Infinity s1) (Fin s2 m2 e2) = Infinity s1"
| "fadd (Fin s1 m1 e1) (Infinity s2) = Infinity s2"
| "fadd (Fin s1 m1 e1) (Fin s2 m2 e2) =
     (let e = min e1 e2;
          t = signed_int s1 m1 * 2 ^ nat (e1 - e) + signed_int s2 m2 * 2 ^ nat (e2 - e)
      in if t = 0 then Fin (s1 \<and> s2) 0 0 else round_dyadic (t < 0) (nat \<bar>t\<bar>) e)"

text \<open>\<open>a - b\<close>.\<close>

definition fsub :: "number \<Rightarrow> number \<Rightarrow> number" where
  "fsub a b = fadd a (fneg b)"

text \<open>
  \<open>a / b\<close>: the quotient of the mantissas is taken to at least 64 bits, with one more
  bit that records a remainder, so that rounding it is rounding the exact quotient.
\<close>

fun fdiv :: "number \<Rightarrow> number \<Rightarrow> number" where
  "fdiv NaN b = NaN"
| "fdiv a NaN = NaN"
| "fdiv (Infinity s1) (Infinity s2) = NaN"
| "fdiv (Infinity s1) (Fin s2 m2 e2) = Infinity (s1 \<noteq> s2)"
| "fdiv (Fin s1 m1 e1) (Infinity s2) = Fin (s1 \<noteq> s2) 0 0"
| "fdiv (Fin s1 m1 e1) (Fin s2 m2 e2) =
     (if m2 = 0 then (if m1 = 0 then NaN else Infinity (s1 \<noteq> s2))
      else if m1 = 0 then Fin (s1 \<noteq> s2) 0 0
      else
        (let k = nat (bitlen (int m2)) + 64;
             n = m1 * 2 ^ k; q = n div m2; r = n mod m2
         in round_dyadic (s1 \<noteq> s2) (2 * q + (if r = 0 then 0 else 1))
              (e1 - e2 - int k - 1)))"

text \<open>\<open>Math.floor\<close>: zeros keep their sign; the result is always exact.\<close>

fun Math_floor :: "number \<Rightarrow> number" where
  "Math_floor NaN = NaN"
| "Math_floor (Infinity s) = Infinity s"
| "Math_floor (Fin s m e) =
     (if 0 \<le> e \<or> m = 0 then Fin s m e
      else
        (let d = 2 ^ nat (- e); q = m div d; r = m mod d
         in if r = 0 then finish s q 0
            else if s then finish True (q + 1) 0
            else finish False q 0))"

text \<open>The comparison \<open>a < b\<close>; it is false when an operand is NaN.\<close>

fun lt :: "number \<Rightarrow> number \<Rightarrow> bool" where
  "lt NaN b = False"
| "lt a NaN = False"
| "lt (Infinity s1) (Infinity s2) = (s1 \<and> \<not> s2)"
| "lt (Infinity s1) (Fin s2 m2 e2) = s1"
| "lt (Fin s1 m1 e1) (Infinity s2) = (\<not> s2)"
| "lt (Fin s1 m1 e1) (Fin s2 m2 e2) =
     (let e = min e1 e2
      in signed_int s1 m1 * 2 ^ nat (e1 - e) < signed_int s2 m2 * 2 ^ nat (e2 - e))"

section \<open>Data model (types.ts)\<close>

text \<open>
  An optional property is an \<open>option\<close>: \<open>None\<close> is JavaScript's \<open>undefined\<close>.
  Field names carry the name of their interface as a prefix, since \<open>id\<close>, \<open>length\<close>
  and \<open>size\<close> are constants of HOL and two interfaces share \<open>direction\<close> and
  \<open>preferences\<close>; a variable the source calls \<open>id\<close> is written \<open>id'\<close>.
  \<open>Room.direction\<close> is declared a string, but \<open>addRoom\<close> stores whatever
  \<open>vastuRule.direction\<close> evaluates to, which can be \<open>undefined\<close>; hence the option.
\<close>

record Size =
  size_length :: number
  size_width :: number

record Position =
  pos_x :: number
  pos_y :: number

record Preferences =
  hasAttachedWashroom :: "bool option"
  isOpen :: "bool option"
  isInside :: "bool option"
  isCombined :: "bool option"

record Room =
  room_id :: string
  room_type :: string
  room_size :: Size
  room_position :: Position
  room_direction :: "string option"
  room_preferences :: "Preferences option"

record PlotDimensions =
  plot_length :: number
  plot_width :: number

record VastuRule =
  rule_direction :: string
  rule_defaultSize :: Size
  rule_description :: string
  rule_preferences :: "Preferences option"

section \<open>The rule catalog (VASTU_RULES)\<close>

definition no_flags :: Preferences where
  "no_flags = \<lparr>hasAttachedWashroom = None, isOpen = None, isInside = None, isCombined = None\<rparr>"

definition master_bedroom_rule :: VastuRule where
  "master_bedroom_rule =
     \<lparr>rule_direction = ''southwest'',
      rule_defaultSize = \<lparr>size_length = number_of_int 12, size_width = number_of_int 15\<rparr>,
      rule_description =
        ''Master bedroom should be in the Southwest direction for stability and peace.'',
      rule_preferences = Some (no_flags\<lparr>hasAttachedWashroom := Some True\<rparr>)\<rparr>"

definition bedroom_rule :: VastuRule where
  "bedroom_rule =
     \<lparr>rule_direction = ''west'',
      rule_defaultSize = \<lparr>size_length = number_of_int 10, size_width = number_of_int 12\<rparr>,
      rule_description = ''Additional bedrooms should be in the West direction.'',
      rule_preferences = Some (no_flags\<lparr>hasAttachedWashroom := Some False\<rparr>)\<rparr>"

definition kitchen_rule :: VastuRule where
  "kitchen_rule =
     \<lparr>rule_direction = ''southeast'',
      rule_defaultSize = \<lparr>size_length = number_of_int 8, size_width = number_of_int 10\<rparr>,
      rule_description =
        ''Kitchen should be in the Southeast direction for positive energy while cooking.'',
      rule_preferences = Some (no_flags\<lparr>isOpen := Some False\<rparr>)\<rparr>"

definition pooja_room_rule :: VastuRule where
  "pooja_room_rule =
     \<lparr>rule_direction = ''northeast'',
      rule_defaultSize = \<lparr>size_length = number_of_int 6, size_width = number_of_int 6\<rparr>,
      rule_description =
        ''Pooja room should be in the Northeast direction for spiritual growth.'',
      rule_preferences = None\<rparr>"

definition bathroom_rule :: VastuRule where
  "bathroom_rule =
     \<lparr>rule_direction = ''northwest'',
      rule_defaultSize = \<lparr>size_length = number_of_int 5, size_width = number_of_int 5\<rparr>,
      rule_description = ''Bathroom should be in the Northwest direction.'',
      rule_preferences = None\<rparr>"

definition living_room_rule :: VastuRule where
  "living_room_rule =
     \<lparr>rule_direction = ''north'',
      rule_defaultSize = \<lparr>size_length = number_of_int 15, size_width = number_of_int 12\<rparr>,
      rule_description =
        ''Living room should be in the North or East direction for prosperity.'',
      rule_preferences = Some (no_flags\<lparr>isCombined := Some False\<rparr>)\<rparr>"

definition dining_room_rule :: VastuRule where
  "dining_room_rule =
     \<lparr>rule_direction = ''east'',
      rule_defaultSize = \<lparr>size_length = number_of_int 10, size_width = number_of_int 12\<rparr>,
      rule_description =
        ''Dining room should be in the East direction for harmonious meals.'',
      rule_preferences = Some (no_flags\<lparr>isCombined := Some False\<rparr>)\<rparr>"

definition staircase_rule :: VastuRule where
  "staircase_rule =
     \<lparr>rule_direction = ''south'',
      rule_defaultSize = \<lparr>size_length = number_of_int 6, size_width = number_of_int 10\<rparr>,
      rule_description =
        ''Staircase should be in the South or West direction for positive energy flow.'',
      rule_preferences = Some (no_flags\<lparr>isInside := Some True\<rparr>)\<rparr>"

definition common_area_rule :: VastuRule where
  "common_area_rule =
     \<lparr>rule_direction = ''north'',
      rule_defaultSize = \<lparr>size_length = number_of_int 20, size_width = number_of_int 15\<rparr>,
      rule_description =
        ''Combined living and dining area should be in the North direction.'',
      rule_preferences = None\<rparr>"

text \<open>The object literal, as the list of its own entries in source order.\<close>

definition VASTU_RULES :: "(string \<times> VastuRule) list" where
  "VASTU_RULES =
     [(''master_bedroom'', master_bedroom_rule),
      (''bedroom'', bedroom_rule),
      (''kitchen'', kitchen_rule),
      (''pooja_room'', pooja_room_rule),
      (''bathroom'', bathroom_rule),
      (''living_room'', living_room_rule),
      (''dining_room'', dining_room_rule),
      (''staircase'', staircase_rule),
      (''common_area'', common_area_rule)]"

definition catalog_keys :: "string list" where
  "catalog_keys = map fst VASTU_RULES"

text \<open>
  \<open>VASTU_RULES\<close> is a plain object, so the index expression \<open>VASTU_RULES[type]\<close> also
  finds the properties every object inherits from \<open>Object.prototype\<close>. Reading a
  property of such an inherited value (a function, or the prototype object itself) gives
  \<open>undefined\<close>; reading a property of \<open>undefined\<close> throws a \<open>TypeError\<close>.
\<close>

definition Object_prototype_keys :: "string list" where
  "Object_prototype_keys =
     [''constructor'', ''hasOwnProperty'', ''isPrototypeOf'', ''propertyIsEnumerable'',
      ''toLocaleString'', ''toString'', ''valueOf'', ''__proto__'',
      ''__defineGetter__'', ''__defineSetter__'', ''__lookupGetter__'', ''__lookupSetter__'']"

datatype indexed = Own VastuRule | Inherited | Undefined

definition index_VASTU_RULES :: "string \<Rightarrow> indexed" where
  "index_VASTU_RULES t =
     (case map_of VASTU_RULES t of
        Some r \<Rightarrow> Own r
      | None \<Rightarrow> if t \<in> set Object_prototype_keys then Inherited else Undefined)"

text \<open>
  \<open>TypeError\<close> is the only error the program can raise in the operations modelled here.
  \<open>UnknownRoomType\<close> is the error the specification names for a failed catalog lookup;
  it is part of the type so that statements about it can be written down.
\<close>

datatype error = TypeError | UnknownRoomType

text \<open>The property reads \<open>vastuRule.direction\<close>, \<open>vastuRule.defaultSize\<close> and
  \<open>vastuRule.preferences\<close> on the result of the index expression.\<close>

fun get_direction :: "indexed \<Rightarrow> error + string option" where
  "get_direction (Own r) = Inr (Some (rule_direction r))"
| "get_direction Inherited = Inr None"
| "get_direction Undefined = Inl TypeError"

fun get_defaultSize :: "indexed \<Rightarrow> error + Size option" where
  "get_defaultSize (Own r) = Inr (Some (rule_defaultSize r))"
| "get_defaultSize Inherited = Inr None"
| "get_defaultSize Undefined = Inl TypeError"

fun get_preferences :: "indexed \<Rightarrow> error + Preferences option" where
  "get_preferences (Own r) = Inr (rule_preferences r)"
| "get_preferences Inherited = Inr None"
| "get_preferences Undefined = Inl TypeError"

section \<open>The placement function\<close>

text \<open>
  The \<open>switch\<close> compares the direction with each string literal by strict equality, in
  source order; \<open>undefined\<close> and every other string fall to \<open>default\<close>.
\<close>

definition getPositionForDirection ::
    "string option \<Rightarrow> PlotDimensions \<Rightarrow> Size \<Rightarrow> Position" where
  "getPositionForDirection direction plotDimensions roomSize =
     (let length = plot_length plotDimensions; width = plot_width plotDimensions in
      if direction = Some ''northeast'' then \<lparr>pos_x = number_of_int 0, pos_y = number_of_int 0\<rparr>
      else if direction = Some ''north'' then
        \<lparr>pos_x = Math_floor (fdiv width (number_of_int 4)), pos_y = number_of_int 0\<rparr>
      else if direction = Some ''northwest'' then
        \<lparr>pos_x = fsub width (size_width roomSize), pos_y = number_of_int 0\<rparr>
      else if direction = Some ''east'' then
        \<lparr>pos_x = number_of_int 0, pos_y = Math_floor (fdiv length (number_of_int 4))\<rparr>
      else if direction = Some ''southeast'' then
        \<lparr>pos_x = number_of_int 0, pos_y = fsub length (size_length roomSize)\<rparr>
      else if direction = Some ''south'' then
        \<lparr>pos_x = Math_floor (fdiv width (number_of_int 4)), pos_y = fsub length (size_length roomSize)\<rparr>
      else if direction = Some ''southwest'' then
        \<lparr>pos_x = fsub width (size_width roomSize), pos_y = fsub length (size_length roomSize)\<rparr>
      else if direction = Some ''west'' then
        \<lparr>pos_x = fsub width (size_width roomSize), pos_y = Math_floor (fdiv length (number_of_int 4))\<rparr>
      else \<lparr>pos_x = number_of_int 0, pos_y = number_of_int 0\<rparr>)"

definition compass_points :: "string list" where
  "compass_points =
     [''north'', ''northeast'', ''east'', ''southeast'',
      ''south'', ''southwest'', ''west'', ''northwest'']"

section \<open>The component state\<close>

text \<open>
  The three \<open>useState\<close> cells of the component. The draft's preference object always
  carries all four flags; it is the same \<open>Preferences\<close> shape with every flag present.
\<close>

record NewRoom =
  draft_type :: string
  draft_length :: number
  draft_width :: number
  draft_preferences :: Preferences

record State =
  plotDimensions :: PlotDimensions
  rooms :: "Room list"
  newRoom :: NewRoom

definition initial :: State where
  "initial =
     \<lparr>plotDimensions = \<lparr>plot_length = number_of_int 50, plot_width = number_of_int 30\<rparr>,
      rooms = [],
      newRoom =
        \<lparr>draft_type = ''master_bedroom'',
         draft_length = size_length (rule_defaultSize master_bedroom_rule),
         draft_width = size_width (rule_defaultSize master_bedroom_rule),
         draft_preferences =
           \<lparr>hasAttachedWashroom = Some True, isOpen = Some False,
            isInside = Some True, isCombined = Some False\<rparr>\<rparr>\<rparr>"

subsection \<open>JavaScript primitives\<close>

text \<open>\<open>Number.prototype.toString\<close> on a positive whole number: its decimal digits.\<close>

definition digit :: "nat \<Rightarrow> char" where
  "digit d = ''0123456789'' ! d"

function toString :: "nat \<Rightarrow> string" where
  "toString n = (if n < 10 then [digit n] else toString (n div 10) @ [digit (n mod 10)])"
  by pat_completeness auto
termination
  by (relation "measure (\<lambda>n. n)") auto

declare toString.simps [simp del]

text \<open>\<open>String.prototype.startsWith\<close>: \<open>startsWith s p\<close> is \<open>s.startsWith(p)\<close>.\<close>

fun startsWith :: "string \<Rightarrow> string \<Rightarrow> bool" where
  "startsWith s [] = True"
| "startsWith [] (c # p) = False"
| "startsWith (a # s) (c # p) = (a = c \<and> startsWith s p)"

text \<open>Truthiness of a flag that is a boolean or \<open>undefined\<close>.\<close>

definition truthy :: "bool option \<Rightarrow> bool" where
  "truthy b = (b = Some True)"

text \<open>The operators \<open>a ?? d\<close> and \<open>p?.f\<close>.\<close>

definition nullish :: "'a option \<Rightarrow> 'a \<Rightarrow> 'a" where
  "nullish a d = (case a of None \<Rightarrow> d | Some v \<Rightarrow> v)"

definition chain :: "'a option \<Rightarrow> ('a \<Rightarrow> 'b option) \<Rightarrow> 'b option" where
  "chain p f = (case p of None \<Rightarrow> None | Some q \<Rightarrow> f q)"

section \<open>Registry operations\<close>

definition addRoom :: "State \<Rightarrow> error + State" where
  "addRoom s =
     (let id' = toString (length (rooms s) + 1);
          vastuRule = index_VASTU_RULES (draft_type (newRoom s))
      in case get_direction vastuRule of
           Inl e \<Rightarrow> Inl e
         | Inr direction \<Rightarrow>
            (let position =
                   getPositionForDirection direction (plotDimensions s)
                     \<lparr>size_length = draft_length (newRoom s),
                      size_width = draft_width (newRoom s)\<rparr>;
                 room =
                   \<lparr>room_id = id',
                    room_type = draft_type (newRoom s),
                    room_size = \<lparr>size_length = draft_length (newRoom s),
                                 size_width = draft_width (newRoom s)\<rparr>,
                    room_position = position,
                    room_direction = direction,
                    room_preferences = Some (draft_preferences (newRoom s))\<rparr>
             in if draft_type (newRoom s) = ''living_room''
                   \<and> truthy (isCombined (draft_preferences (newRoom s)))
                then
                  (let combinedRoom =
                         \<lparr>room_id = id',
                          room_type = ''common_area'',
                          room_size = rule_defaultSize common_area_rule,
                          room_position = position,
                          room_direction = Some ''north'',
                          room_preferences = Some (no_flags\<lparr>isCombined := Some True\<rparr>)\<rparr>
                   in Inr (s\<lparr>rooms := rooms s @ [combinedRoom]\<rparr>))
                else if truthy (hasAttachedWashroom (draft_preferences (newRoom s))) then
                  (let washroomId = id' @ ''-washroom'';
                       washroom =
                         \<lparr>room_id = washroomId,
                          room_type = ''bathroom'',
                          room_size = rule_defaultSize bathroom_rule,
                          room_position =
                            \<lparr>pos_x = fadd (pos_x position) (draft_width (newRoom s)),
                             pos_y = pos_y position\<rparr>,
                          room_direction = Some ''northwest'',
                          room_preferences = None\<rparr>
                   in Inr (s\<lparr>rooms := rooms s @ [room, washroom]\<rparr>))
                else Inr (s\<lparr>rooms := rooms s @ [room]\<rparr>)))"

definition removeRoom :: "string \<Rightarrow> State \<Rightarrow> State" where
  "removeRoom id' s = s\<lparr>rooms := filter (\<lambda>room. \<not> startsWith (room_id room) id') (rooms s)\<rparr>"

definition handleRoomTypeChange :: "string \<Rightarrow> State \<Rightarrow> error + State" where
  "handleRoomTypeChange type s =
     (let vastuRule = index_VASTU_RULES type in
      case get_defaultSize vastuRule of
        Inl e \<Rightarrow> Inl e
      | Inr None \<Rightarrow> Inl TypeError
      | Inr (Some defaultSize) \<Rightarrow>
         (case get_preferences vastuRule of
            Inl e \<Rightarrow> Inl e
          | Inr preferences \<Rightarrow>
             Inr (s\<lparr>newRoom :=
                    \<lparr>draft_type = type,
                     draft_length = size_length defaultSize,
                     draft_width = size_width defaultSize,
                     draft_preferences =
                       \<lparr>hasAttachedWashroom =
                          Some (nullish (chain preferences hasAttachedWashroom) False),
                        isOpen = Some (nullish (chain preferences isOpen) False),
                        isInside = Some (nullish (chain preferences isInside) True),
                        isCombined = Some (nullish (chain preferences isCombined) False)\<rparr>\<rparr>\<rparr>)))"

text \<open>The state setter of the plot cell: it stores its argument and touches nothing else.\<close>

definition setPlotDimensions :: "PlotDimensions \<Rightarrow> State \<Rightarrow> State" where
  "setPlotDimensions next s = s\<lparr>plotDimensions := next\<rparr>"

section \<open>The form: which handlers the rendered controls can fire\<close>

text \<open>
  One event per control of the form. The type selector lists every catalog entry but
  \<open>common_area\<close>; a preference checkbox is rendered only when the rule of the draft's type
  declares that flag, and the combined checkbox only for the types \<open>living_room\<close> and
  \<open>dining_room\<close>; a Remove button exists for each room in the list. A number field
  delivers \<open>Number(e.target.value)\<close>, which is some double.
\<close>

datatype Event =
    PlotLength number
  | PlotWidth number
  | SelectType string
  | RoomLength number
  | RoomWidth number
  | CheckWashroom bool
  | CheckOpen bool
  | CheckInside bool
  | CheckCombined bool
  | ClickAdd
  | ClickRemove string

definition selector_options :: "string list" where
  "selector_options = filter (\<lambda>type. type \<noteq> ''common_area'') (map fst VASTU_RULES)"

definition declares :: "string \<Rightarrow> (Preferences \<Rightarrow> bool option) \<Rightarrow> bool" where
  "declares type flag =
     (case index_VASTU_RULES type of
        Own r \<Rightarrow> chain (rule_preferences r) flag \<noteq> None
      | Inherited \<Rightarrow> False
      | Undefined \<Rightarrow> False)"

fun rendered :: "State \<Rightarrow> Event \<Rightarrow> bool" where
  "rendered s (SelectType t) = (t \<in> set selector_options)"
| "rendered s (CheckWashroom b) = declares (draft_type (newRoom s)) hasAttachedWashroom"
| "rendered s (CheckOpen b) = declares (draft_type (newRoom s)) isOpen"
| "rendered s (CheckInside b) = declares (draft_type (newRoom s)) isInside"
| "rendered s (CheckCombined b) =
     (draft_type (newRoom s) = ''living_room'' \<or> draft_type (newRoom s) = ''dining_room'')"
| "rendered s (ClickRemove i) = (i \<in> set (map room_id (rooms s)))"
| "rendered s (PlotLength v) = is_double v"
| "rendered s (PlotWidth v) = is_double v"
| "rendered s (RoomLength v) = is_double v"
| "rendered s (RoomWidth v) = is_double v"
| "rendered s ClickAdd = True"

fun handle :: "Event \<Rightarrow> State \<Rightarrow> error + State" where
  "handle (PlotLength v) s = Inr (setPlotDimensions ((plotDimensions s)\<lparr>plot_length := v\<rparr>) s)"
| "handle (PlotWidth v) s = Inr (setPlotDimensions ((plotDimensions s)\<lparr>plot_width := v\<rparr>) s)"
| "handle (SelectType t) s = handleRoomTypeChange t s"
| "handle (RoomLength v) s = Inr (s\<lparr>newRoom := (newRoom s)\<lparr>draft_length := v\<rparr>\<rparr>)"
| "handle (RoomWidth v) s = Inr (s\<lparr>newRoom := (newRoom s)\<lparr>draft_width := v\<rparr>\<rparr>)"
| "handle (CheckWashroom b) s =
     Inr (s\<lparr>newRoom := (newRoom s)\<lparr>draft_preferences :=
            (draft_preferences (newRoom s))\<lparr>hasAttachedWashroom := Some b\<rparr>\<rparr>\<rparr>)"
| "handle (CheckOpen b) s =
     Inr (s\<lparr>newRoom := (newRoom s)\<lparr>draft_preferences :=
            (draft_preferences (newRoom s))\<lparr>isOpen := Some b\<rparr>\<rparr>\<rparr>)"
| "handle (CheckInside b) s =
     Inr (s\<lparr>newRoom := (newRoom s)\<lparr>draft_preferences :=
            (draft_preferences (newRoom s))\<lparr>isInside := Some b\<rparr>\<rparr>\<rparr>)"
| "handle (CheckCombined b) s =
     Inr (s\<lparr>newRoom := (newRoom s)\<lparr>draft_preferences :=
            (draft_preferences (newRoom s))\<lparr>isCombined := Some b\<rparr>\<rparr>\<rparr>)"
| "handle ClickAdd s = addRoom s"
| "handle (ClickRemove i) s = Inr (removeRoom i s)"

text \<open>
  Running a list of events from a state: an event whose control is not rendered cannot
  happen (\<open>None\<close>); a handler that throws leaves the state as it was, since the setter
  is never reached.
\<close>

fun run :: "Event list \<Rightarrow> State \<Rightarrow> State option" where
  "run [] s = Some s"
| "run (e # es) s =
     (if rendered s e
      then (case handle e s of Inl err \<Rightarrow> run es s | Inr s' \<Rightarrow> run es s')
      else None)"

inductive reachable :: "State \<Rightarrow> bool" where
  start: "reachable initial"
| event: "reachable s \<Longrightarrow> rendered s e \<Longrightarrow> handle e s = Inr s' \<Longrightarrow> reachable s'"

text \<open>Every number held in a state is a double.\<close>

definition double_size :: "Size \<Rightarrow> bool" where
  "double_size sz = (is_double (size_length sz) \<and> is_double (size_width sz))"

definition double_room :: "Room \<Rightarrow> bool" where
  "double_room room =
     (double_size (room_size room)
      \<and> is_double (pos_x (room_position room)) \<and> is_double (pos_y (room_position room)))"

definition double_state :: "State \<Rightarrow> bool" where
  "double_state s =
     (is_double (plot_length (plotDimensions s)) \<and> is_double (plot_width (plotDimensions s))
      \<and> is_double (draft_length (newRoom s)) \<and> is_double (draft_width (newRoom s))
      \<and> list_all double_room (rooms s))"

section \<open>Supporting lemmas\<close>

lemmas catalog_defs = VASTU_RULES_def master_bedroom_rule_def bedroom_rule_def kitchen_rule_def
  pooja_room_rule_def bathroom_rule_def living_room_rule_def dining_room_rule_def
  staircase_rule_def common_area_rule_def no_flags_def

lemma startsWith_prefix: "startsWith s p = prefix p s"
  by (induction s p rule: startsWith.induct) auto

subsection \<open>Numbers\<close>

text \<open>Unfolding on numerals only, so that evaluation by the simplifier stops.\<close>

lemmas bitlen_eval = compute_bitlen [of "numeral n"] compute_bitlen [of 1] for n

lemmas normalise_eval =
  normalise.simps [of "numeral n"] normalise.simps [of "Suc 0"] normalise.simps [of 0] for n

lemmas number_eval = number_of_int_def round_dyadic_def finish_def normalise_eval
  bitlen_eval signed_int_def fsub_def Let_def

lemma literals:
  "number_of_int 0 = Fin False 0 0"
  "number_of_int 4 = Fin False 1 2"
  "number_of_int 5 = Fin False 5 0"
  "number_of_int 6 = Fin False 3 1"
  "number_of_int 7 = Fin False 7 0"
  "number_of_int 8 = Fin False 1 3"
  "number_of_int 10 = Fin False 5 1"
  "number_of_int 12 = Fin False 3 2"
  "number_of_int 15 = Fin False 15 0"
  "number_of_int 20 = Fin False 5 2"
  "number_of_int 28 = Fin False 7 2"
  "number_of_int 30 = Fin False 15 1"
  "number_of_int 38 = Fin False 19 1"
  "number_of_int 40 = Fin False 5 3"
  "number_of_int 50 = Fin False 25 1"
  "number_of_int (- 5) = Fin True 5 0"
  "number_of_int (- 2) = Fin True 1 1"
  by (simp_all add: number_eval)

text \<open>
  Rounding at work: the doubles nearest 30.3 and 10.1 subtract to 20.200000000000003,
  and adding 10.1 back gives 30.300000000000004; \<open>1e16 - 1\<close> is \<open>1e16\<close>; a quarter of
  the smallest negative double is the negative zero, and so is its floor.
\<close>

lemma rounding_examples:
  "fsub (Fin False 8528691794332877 (- 48)) (Fin False 5685794529555251 (- 49))
     = Fin False 1421448632388813 (- 46)"
  "fadd (Fin False 1421448632388813 (- 46)) (Fin False 5685794529555251 (- 49))
     = Fin False 4264345897166439 (- 47)"
  "fsub (Fin False 152587890625 16) (number_of_int 1) = Fin False 152587890625 16"
  "fdiv (Fin True 1 (- 1074)) (number_of_int 4) = Fin True 0 0"
  "Math_floor (fdiv (Fin True 1 (- 1074)) (number_of_int 4)) = Fin True 0 0"
  "Math_floor (fdiv (number_of_int 30) (number_of_int 4)) = number_of_int 7"
  by (simp_all add: number_eval)

text \<open>
  The difference of two doubles \<open>a < b\<close> is a negative double or minus infinity: it is at
  least one unit of the smaller exponent in size, so rounding cannot make it zero.
\<close>

lemma normalise_pos: "0 < m \<Longrightarrow> 0 < fst (normalise m e)"
proof (induction m e rule: normalise.induct)
  case (1 m e)
  show ?case
  proof (cases "even m")
    case True
    with "1.prems" have "0 < m div 2" by (auto elim: evenE)
    with "1.IH" "1.prems" True show ?thesis
      by (subst normalise.simps) simp
  next
    case False
    with "1.prems" show ?thesis
      by (subst normalise.simps) simp
  qed
qed

lemma finish_pos:
  assumes "0 < m"
  shows "finish s m e = Infinity s \<or> (\<exists>m' e'. finish s m e = Fin s m' e' \<and> 0 < m')"
proof -
  obtain m' e' where n: "normalise m e = (m', e')" by (cases "normalise m e")
  with normalise_pos [OF assms, of e] have "0 < m'" by simp
  with n show ?thesis by (simp add: finish_def)
qed

lemma round_dyadic_pos:
  assumes "0 < m" and "- 1074 \<le> e"
  shows "round_dyadic s m e = Infinity s
    \<or> (\<exists>m' e'. round_dyadic s m e = Fin s m' e' \<and> 0 < m')"
proof (cases "max (bitlen (int m) - 53) (- 1074 - e) \<le> 0")
  case True
  then show ?thesis
    using finish_pos [OF assms(1)] by (simp add: round_dyadic_def)
next
  case False
  define sh where "sh = max (bitlen (int m) - 53) (- 1074 - e)"
  with False assms(2) have sh: "sh = bitlen (int m) - 53" "0 < sh" by auto
  from assms(1) have "2 ^ nat (bitlen (int m) - 1) \<le> int m"
    using bitlen_bounds [of "int m"] by simp
  moreover from sh have "(2::int) ^ nat sh \<le> 2 ^ nat (bitlen (int m) - 1)"
    by (intro power_increasing) auto
  ultimately have "(2::int) ^ nat sh \<le> int m" by linarith
  then have "(2::nat) ^ nat sh \<le> m"
    by (metis of_nat_le_iff of_nat_numeral of_nat_power)
  then have q: "0 < m div 2 ^ nat sh"
    by (simp add: div_greater_zero_iff)
  define q' where "q' = (if 2 * (m mod 2 ^ nat sh) > 2 ^ nat sh
      \<or> (2 * (m mod 2 ^ nat sh) = 2 ^ nat sh \<and> odd (m div 2 ^ nat sh))
    then m div 2 ^ nat sh + 1 else m div 2 ^ nat sh)"
  with q have "0 < q'" by simp
  from finish_pos [OF this, of s "e + sh"] False show ?thesis
    by (simp add: round_dyadic_def Let_def sh_def [symmetric] q'_def [symmetric])
qed

lemma fsub_negative:
  assumes "is_double a" and "is_double b" and "lt a b"
  shows "lt (fsub a b) (number_of_int 0)"
proof (cases a)
  case NaN
  with assms(3) show ?thesis by simp
next
  case (Infinity s1)
  with assms(3) show ?thesis
    by (cases b) (auto simp: fsub_def literals)
next
  case a: (Fin s1 m1 e1)
  show ?thesis
  proof (cases b)
    case NaN
    with assms(3) a show ?thesis by simp
  next
    case (Infinity s2)
    with assms(3) a show ?thesis by (auto simp: fsub_def literals)
  next
    case b: (Fin s2 m2 e2)
    define e where "e = min e1 e2"
    define t where "t = signed_int s1 m1 * 2 ^ nat (e1 - e)
                       + signed_int (\<not> s2) m2 * 2 ^ nat (e2 - e)"
    from assms(1,2) a b have "- 1074 \<le> e" by (auto simp: e_def)
    from assms(3) a b have "t < 0"
      by (auto simp: t_def e_def Let_def signed_int_def)
    then have "0 < nat \<bar>t\<bar>" by simp
    from round_dyadic_pos [OF this \<open>- 1074 \<le> e\<close>, of True]
    have "lt (round_dyadic True (nat \<bar>t\<bar>) e) (Fin False 0 0)"
      by (auto simp: Let_def signed_int_def)
    with \<open>t < 0\<close> a b show ?thesis
      by (simp add: fsub_def literals Let_def e_def [symmetric] t_def [symmetric])
  qed
qed

text \<open>Every operation returns a double.\<close>

lemma normalise_cases:
  "normalise m e = (m', e') \<Longrightarrow>
     (m = 0 \<and> m' = 0 \<and> e' = 0) \<or> (odd m' \<and> m' \<le> m \<and> e \<le> e')"
proof (induction m e rule: normalise.induct)
  case (1 m e)
  show ?case
  proof (cases "m = 0")
    case True
    with "1.prems" show ?thesis by (simp add: normalise.simps [of 0])
  next
    case m: False
    show ?thesis
    proof (cases "even m")
      case True
      with m "1.prems" have n: "normalise (m div 2) (e + 1) = (m', e')"
        by (simp add: normalise.simps [of m])
      from m True have "m div 2 \<noteq> 0" by (auto elim: evenE)
      with "1.IH" [OF m True n] show ?thesis by auto
    next
      case False
      with m "1.prems" show ?thesis by (simp add: normalise.simps [of m])
    qed
  qed
qed

lemma finish_double:
  assumes "m \<le> 2 ^ 53" and "- 1074 \<le> e"
  shows "is_double (finish s m e)"
proof -
  obtain m' e' where n: "normalise m e = (m', e')" by (cases "normalise m e")
  from normalise_cases [OF n]
  consider "m' = 0" "e' = 0" | "odd m'" "m' \<le> m" "e \<le> e'" by auto
  then show ?thesis
  proof cases
    case 1
    with n show ?thesis by (simp add: finish_def)
  next
    case 2
    from 2(2) assms(1) have "m' \<le> 2 ^ 53" by simp
    moreover from 2(1) have "m' \<noteq> 2 ^ 53" by auto
    ultimately have "m' < 2 ^ 53" by simp
    with 2 assms(2) n show ?thesis by (simp add: finish_def)
  qed
qed

lemma round_dyadic_double: "is_double (round_dyadic s m e)"
proof (cases "max (bitlen (int m) - 53) (- 1074 - e) \<le> 0")
  case True
  then have b: "bitlen (int m) \<le> 53" and e: "- 1074 \<le> e" by auto
  have "m \<le> 2 ^ 53"
  proof (cases "m = 0")
    case False
    then have "int m < 2 ^ nat (bitlen (int m))"
      using bitlen_bounds [of "int m"] by simp
    also from b have "\<dots> \<le> 2 ^ 53"
      by (intro power_increasing) auto
    finally have "int m < 2 ^ 53" .
    then show ?thesis by simp
  qed simp
  with True e show ?thesis
    by (simp add: round_dyadic_def finish_double)
next
  case False
  define sh where "sh = max (bitlen (int m) - 53) (- 1074 - e)"
  with False have sh: "0 < sh" "bitlen (int m) - 53 \<le> sh" "- 1074 \<le> e + sh" by auto
  define q where "q = m div 2 ^ nat sh"
  have "q < 2 ^ 53"
  proof (cases "m = 0")
    case True
    then show ?thesis by (simp add: q_def)
  next
    case False
    then have "int m < 2 ^ nat (bitlen (int m))"
      using bitlen_bounds [of "int m"] by simp
    also from sh have "\<dots> \<le> 2 ^ (nat sh + 53)"
      by (intro power_increasing) auto
    finally have "int m < 2 ^ (nat sh + 53)" .
    then have "m < 2 ^ (nat sh + 53)"
      by (metis of_nat_less_iff of_nat_numeral of_nat_power)
    then have "m < 2 ^ nat sh * 2 ^ 53" by (simp add: power_add)
    then show ?thesis
      unfolding q_def by (simp add: less_mult_imp_div_less mult.commute)
  qed
  from \<open>q < 2 ^ 53\<close> have "q \<le> 2 ^ 53" "Suc q \<le> 2 ^ 53" by simp_all
  from finish_double [OF this(1) sh(3), of s] finish_double [OF this(2) sh(3), of s] False
  show ?thesis
    by (simp add: round_dyadic_def Let_def sh_def [symmetric] q_def [symmetric])
qed

lemma number_of_int_double: "is_double (number_of_int k)"
  by (simp add: number_of_int_def round_dyadic_double)

lemma fneg_double: "is_double a \<Longrightarrow> is_double (fneg a)"
  by (cases a) auto

lemma fadd_double: "is_double (fadd a b)"
  by (cases a; cases b) (simp_all add: Let_def round_dyadic_double)

lemma fsub_double: "is_double (fsub a b)"
  by (simp add: fsub_def fadd_double)

lemma fdiv_double: "is_double (fdiv a b)"
  by (cases a; cases b) (simp_all add: Let_def round_dyadic_double)

lemma Math_floor_double: "is_double a \<Longrightarrow> is_double (Math_floor a)"
proof (cases a)
  case (Fin s m e)
  assume d: "is_double a"
  show ?thesis
  proof (cases "0 \<le> e \<or> m = 0")
    case True
    with d Fin show ?thesis by auto
  next
    case False
    with d Fin have m: "m < 2 ^ 53" by auto
    have "m div 2 ^ nat (- e) \<le> m" by simp
    with m have q: "m div 2 ^ nat (- e) < 2 ^ 53" by linarith
    then have "m div 2 ^ nat (- e) \<le> 2 ^ 53" "m div 2 ^ nat (- e) + 1 \<le> 2 ^ 53" by simp_all
    with False Fin show ?thesis
      by (simp add: Let_def finish_double)
  qed
qed simp_all

subsection \<open>Catalog keys and the index expression\<close>

lemma index_Own: "map_of VASTU_RULES t = Some r \<Longrightarrow> index_VASTU_RULES t = Own r"
  by (simp add: index_VASTU_RULES_def)

lemma catalog_key_rule: "t \<in> set catalog_keys \<Longrightarrow> \<exists>r. map_of VASTU_RULES t = Some r"
  unfolding catalog_keys_def using map_of_eq_None_iff [of VASTU_RULES t] by auto

lemma selector_option_key: "t \<in> set selector_options \<Longrightarrow> t \<in> set catalog_keys"
  by (simp add: selector_options_def catalog_keys_def)

lemma handleRoomTypeChange_Own:
  "map_of VASTU_RULES t = Some r \<Longrightarrow>
   handleRoomTypeChange t s =
     Inr (s\<lparr>newRoom :=
       \<lparr>draft_type = t,
        draft_length = size_length (rule_defaultSize r),
        draft_width = size_width (rule_defaultSize r),
        draft_preferences =
          \<lparr>hasAttachedWashroom = Some (nullish (chain (rule_preferences r) hasAttachedWashroom) False),
           isOpen = Some (nullish (chain (rule_preferences r) isOpen) False),
           isInside = Some (nullish (chain (rule_preferences r) isInside) True),
           isCombined = Some (nullish (chain (rule_preferences r) isCombined) False)\<rparr>\<rparr>\<rparr>)"
  by (simp add: handleRoomTypeChange_def index_Own)

subsection \<open>States the form can reach\<close>

text \<open>
  The draft's type is only ever set by \<open>handleRoomTypeChange\<close> on an option of the
  selector, which resets every flag to the rule's default; the washroom checkbox is only
  rendered for a type whose rule declares that flag. So in every reachable state the
  draft's type is a selector option, and an attached washroom is only ever requested for
  a type that declares it.
\<close>

lemma addRoom_frame:
  "addRoom s = Inr s' \<Longrightarrow> newRoom s' = newRoom s \<and> plotDimensions s' = plotDimensions s"
  by (auto simp: addRoom_def Let_def split: sum.splits if_splits)

lemma declares_Own:
  "map_of VASTU_RULES t = Some r \<Longrightarrow> declares t flag = (chain (rule_preferences r) flag \<noteq> None)"
  by (simp add: declares_def index_Own)

lemma reachable_draft:
  "reachable s \<Longrightarrow>
     draft_type (newRoom s) \<in> set selector_options
     \<and> (hasAttachedWashroom (draft_preferences (newRoom s)) = Some True \<longrightarrow>
          declares (draft_type (newRoom s)) hasAttachedWashroom)"
proof (induction rule: reachable.induct)
  case start
  show ?case
    by (simp add: initial_def selector_options_def declares_def index_VASTU_RULES_def
          chain_def catalog_defs)
next
  case (event s e s')
  show ?case
  proof (cases e)
    case (SelectType t)
    with event.hyps have opt: "t \<in> set selector_options" by simp
    then obtain r where r: "map_of VASTU_RULES t = Some r"
      using catalog_key_rule selector_option_key by blast
    from event.hyps SelectType have "handleRoomTypeChange t s = Inr s'" by simp
    with handleRoomTypeChange_Own [OF r, of s] have "newRoom s' =
       \<lparr>draft_type = t,
        draft_length = size_length (rule_defaultSize r),
        draft_width = size_width (rule_defaultSize r),
        draft_preferences =
          \<lparr>hasAttachedWashroom = Some (nullish (chain (rule_preferences r) hasAttachedWashroom) False),
           isOpen = Some (nullish (chain (rule_preferences r) isOpen) False),
           isInside = Some (nullish (chain (rule_preferences r) isInside) True),
           isCombined = Some (nullish (chain (rule_preferences r) isCombined) False)\<rparr>\<rparr>"
      by auto
    with opt show ?thesis
      by (auto simp: declares_Own [OF r] nullish_def split: option.splits)
  next
    case (CheckWashroom b)
    with event show ?thesis by auto
  next
    case ClickAdd
    with event show ?thesis using addRoom_frame [of s s'] by simp
  qed (use event in \<open>auto simp: setPlotDimensions_def removeRoom_def\<close>)
qed

lemma reachable_catalog_key: "reachable s \<Longrightarrow> draft_type (newRoom s) \<in> set catalog_keys"
  using reachable_draft selector_option_key by blast

lemma not_declared_washroom:
  "\<not> declares ''dining_room'' hasAttachedWashroom"
  by (simp add: declares_def index_VASTU_RULES_def chain_def catalog_defs)

lemma run_reachable: "reachable s \<Longrightarrow> run es s = Some s' \<Longrightarrow> reachable s'"
proof (induction es arbitrary: s)
  case Nil
  then show ?case by simp
next
  case (Cons e es)
  then show ?case
    by (auto split: if_splits sum.splits intro: reachable.event)
qed

text \<open>The arithmetic never leaves the doubles: every reachable state holds doubles only.\<close>

lemma catalog_double_size:
  "map_of VASTU_RULES t = Some r \<Longrightarrow> double_size (rule_defaultSize r)"
proof -
  have "\<forall>(k, v) \<in> set VASTU_RULES. double_size (rule_defaultSize v)"
    by (simp add: catalog_defs double_size_def number_of_int_double)
  moreover assume "map_of VASTU_RULES t = Some r"
  then have "(t, r) \<in> set VASTU_RULES" by (rule map_of_SomeD)
  ultimately show ?thesis by auto
qed

lemma getPositionForDirection_double:
  "is_double (pos_x (getPositionForDirection d p r))
   \<and> is_double (pos_y (getPositionForDirection d p r))"
  by (simp add: getPositionForDirection_def Let_def fsub_double fdiv_double
        Math_floor_double number_of_int_double)

lemma addRoom_double:
  assumes "double_state s" and "addRoom s = Inr s'"
  shows "double_state s'"
proof (cases "get_direction (index_VASTU_RULES (draft_type (newRoom s)))")
  case (Inl e)
  with assms(2) show ?thesis by (simp add: addRoom_def Let_def)
next
  case (Inr direction)
  have "double_size (rule_defaultSize common_area_rule)"
    "double_size (rule_defaultSize bathroom_rule)"
    by (simp_all add: common_area_rule_def bathroom_rule_def double_size_def
          number_of_int_double)
  with assms Inr show ?thesis
    by (auto simp: addRoom_def Let_def double_state_def double_room_def double_size_def
          getPositionForDirection_double fadd_double split: if_splits)
qed

lemma reachable_double: "reachable s \<Longrightarrow> double_state s"
proof (induction rule: reachable.induct)
  case start
  show ?case
    by (simp add: initial_def double_state_def master_bedroom_rule_def number_of_int_double)
next
  case (event s e s')
  show ?case
  proof (cases e)
    case (SelectType t)
    with event.hyps have "t \<in> set selector_options" by simp
    then obtain r where r: "map_of VASTU_RULES t = Some r"
      using catalog_key_rule selector_option_key by blast
    from event.hyps SelectType have "handleRoomTypeChange t s = Inr s'" by simp
    with handleRoomTypeChange_Own [OF r, of s] catalog_double_size [OF r] event.IH
    show ?thesis
      by (auto simp: double_state_def double_size_def)
  next
    case ClickAdd
    with event show ?thesis using addRoom_double [of s s'] by simp
  next
    case (ClickRemove i)
    with event show ?thesis
      by (auto simp: double_state_def removeRoom_def list_all_iff)
  qed (use event in \<open>auto simp: double_state_def setPlotDimensions_def\<close>)
qed

subsection \<open>Evaluation lemmas\<close>

lemma catalog_keys_eq:
  "catalog_keys = [''master_bedroom'', ''bedroom'', ''kitchen'', ''pooja_room'',
     ''bathroom'', ''living_room'', ''dining_room'', ''staircase'', ''common_area'']"
  by (simp add: catalog_keys_def VASTU_RULES_def)

lemma own_rules:
  "map_of VASTU_RULES ''master_bedroom'' = Some master_bedroom_rule"
  "map_of VASTU_RULES ''bedroom'' = Some bedroom_rule"
  "map_of VASTU_RULES ''kitchen'' = Some kitchen_rule"
  "map_of VASTU_RULES ''pooja_room'' = Some pooja_room_rule"
  "map_of VASTU_RULES ''bathroom'' = Some bathroom_rule"
  "map_of VASTU_RULES ''living_room'' = Some living_room_rule"
  "map_of VASTU_RULES ''dining_room'' = Some dining_room_rule"
  "map_of VASTU_RULES ''staircase'' = Some staircase_rule"
  "map_of VASTU_RULES ''common_area'' = Some common_area_rule"
  by (simp_all add: VASTU_RULES_def)

lemma not_catalog_key: "t \<notin> set catalog_keys \<Longrightarrow> map_of VASTU_RULES t = None"
  unfolding catalog_keys_def using map_of_eq_None_iff [of VASTU_RULES t] by simp

lemma handleRoomTypeChange_error: "handleRoomTypeChange t s \<noteq> Inl UnknownRoomType"
  by (cases "index_VASTU_RULES t") (simp_all add: handleRoomTypeChange_def)

lemma addRoom_error: "addRoom s \<noteq> Inl UnknownRoomType"
  by (cases "index_VASTU_RULES (draft_type (newRoom s))") (simp_all add: addRoom_def Let_def)

lemma toString_digits: "toString (Suc 0) = ''1''" "toString (Suc (Suc (Suc 0))) = ''3''"
proof -
  have "toString 1 = ''1''" "toString 3 = ''3''"
    by (simp_all add: toString.simps digit_def)
  then show "toString (Suc 0) = ''1''" "toString (Suc (Suc (Suc 0))) = ''3''"
    by (simp_all add: numeral_3_eq_3)
qed

lemma addRoom_initial_draft:
  "addRoom (initial\<lparr>rooms := rs\<rparr>) =
     Inr (initial\<lparr>rooms := rs @
       [\<lparr>room_id = toString (length rs + 1), room_type = ''master_bedroom'',
         room_size = \<lparr>size_length = number_of_int 12, size_width = number_of_int 15\<rparr>,
         room_position = \<lparr>pos_x = number_of_int 15, pos_y = number_of_int 38\<rparr>,
         room_direction = Some ''southwest'',
         room_preferences =
           Some \<lparr>hasAttachedWashroom = Some True, isOpen = Some False,
                 isInside = Some True, isCombined = Some False\<rparr>\<rparr>,
        \<lparr>room_id = toString (length rs + 1) @ ''-washroom'', room_type = ''bathroom'',
         room_size = \<lparr>size_length = number_of_int 5, size_width = number_of_int 5\<rparr>,
         room_position = \<lparr>pos_x = number_of_int 30, pos_y = number_of_int 38\<rparr>,
         room_direction = Some ''northwest'',
         room_preferences = None\<rparr>]\<rparr>)"
proof -
  have "index_VASTU_RULES ''master_bedroom'' = Own master_bedroom_rule"
    by (simp add: index_VASTU_RULES_def VASTU_RULES_def)
  then show ?thesis
    by (simp add: initial_def addRoom_def Let_def master_bedroom_rule_def bathroom_rule_def
          getPositionForDirection_def truthy_def number_eval)
qed

section \<open>The placement table\<close>

text \<open>
  Claim C1. For each of the eight recognised directions, and every plot and room size,
  \<open>getPositionForDirection\<close> returns the pair of the placement table: northeast (0, 0);
  north (floor (plot.width / 4), 0); northwest (plot.width - room.width, 0); east
  (0, floor (plot.length / 4)); southeast (0, plot.length - room.length); south
  (floor (plot.width / 4), plot.length - room.length); southwest (plot.width -
  room.width, plot.length - room.length); west (plot.width - room.width,
  floor (plot.length / 4)), where the subtraction, the division and the floor are those
  of doubles. Nothing is clamped: when the sizes are doubles, a room wider (longer) than
  the plot gets a negative x (y) wherever the table subtracts. Every direction string
  outside the eight gives (0, 0). The table holds for all numbers, the non-negative ones
  included.
\<close>

theorem place_table:
  "getPositionForDirection (Some ''northeast'') p r = \<lparr>pos_x = number_of_int 0, pos_y = number_of_int 0\<rparr>
   \<and> getPositionForDirection (Some ''north'') p r
       = \<lparr>pos_x = Math_floor (fdiv (plot_width p) (number_of_int 4)), pos_y = number_of_int 0\<rparr>
   \<and> getPositionForDirection (Some ''northwest'') p r
       = \<lparr>pos_x = fsub (plot_width p) (size_width r), pos_y = number_of_int 0\<rparr>
   \<and> getPositionForDirection (Some ''east'') p r
       = \<lparr>pos_x = number_of_int 0, pos_y = Math_floor (fdiv (plot_length p) (number_of_int 4))\<rparr>
   \<and> getPositionForDirection (Some ''southeast'') p r
       = \<lparr>pos_x = number_of_int 0, pos_y = fsub (plot_length p) (size_length r)\<rparr>
   \<and> getPositionForDirection (Some ''south'') p r
       = \<lparr>pos_x = Math_floor (fdiv (plot_width p) (number_of_int 4)), pos_y = fsub (plot_length p) (size_length r)\<rparr>
   \<and> getPositionForDirection (Some ''southwest'') p r
       = \<lparr>pos_x = fsub (plot_width p) (size_width r), pos_y = fsub (plot_length p) (size_length r)\<rparr>
   \<and> getPositionForDirection (Some ''west'') p r
       = \<lparr>pos_x = fsub (plot_width p) (size_width r), pos_y = Math_floor (fdiv (plot_length p) (number_of_int 4))\<rparr>
   \<and> (d \<notin> set compass_points \<longrightarrow>
        getPositionForDirection (Some d) p r = \<lparr>pos_x = number_of_int 0, pos_y = number_of_int 0\<rparr>)
   \<and> (is_double (plot_width p) \<and> is_double (size_width r)
        \<and> lt (plot_width p) (size_width r) \<longrightarrow>
        lt (pos_x (getPositionForDirection (Some ''northwest'') p r)) (number_of_int 0)
        \<and> lt (pos_x (getPositionForDirection (Some ''southwest'') p r)) (number_of_int 0)
        \<and> lt (pos_x (getPositionForDirection (Some ''west'') p r)) (number_of_int 0))
   \<and> (is_double (plot_length p) \<and> is_double (size_length r)
        \<and> lt (plot_length p) (size_length r) \<longrightarrow>
        lt (pos_y (getPositionForDirection (Some ''southeast'') p r)) (number_of_int 0)
        \<and> lt (pos_y (getPositionForDirection (Some ''south'') p r)) (number_of_int 0)
        \<and> lt (pos_y (getPositionForDirection (Some ''southwest'') p r)) (number_of_int 0))"
  by (simp add: getPositionForDirection_def compass_points_def fsub_negative)

text \<open>
  The plot 50 by 30 with a 12 by 15 room, and with a 15 by 12 room; a 12 by 15 room on a
  10 by 10 plot; and a room of width 10.1 on a plot of width 30.3, where the subtraction
  rounds to 20.200000000000003.
\<close>

theorem place_table_witness:
  "''up'' \<notin> set compass_points
   \<and> getPositionForDirection (Some ''up'')
        \<lparr>plot_length = number_of_int 50, plot_width = number_of_int 30\<rparr>
        \<lparr>size_length = number_of_int 12, size_width = number_of_int 15\<rparr>
       = \<lparr>pos_x = number_of_int 0, pos_y = number_of_int 0\<rparr>
   \<and> getPositionForDirection (Some ''southwest'')
        \<lparr>plot_length = number_of_int 50, plot_width = number_of_int 30\<rparr>
        \<lparr>size_length = number_of_int 12, size_width = number_of_int 15\<rparr>
       = \<lparr>pos_x = number_of_int 15, pos_y = number_of_int 38\<rparr>
   \<and> getPositionForDirection (Some ''north'')
        \<lparr>plot_length = number_of_int 50, plot_width = number_of_int 30\<rparr>
        \<lparr>size_length = number_of_int 15, size_width = number_of_int 12\<rparr>
       = \<lparr>pos_x = number_of_int 7, pos_y = number_of_int 0\<rparr>
   \<and> is_double (number_of_int 10) \<and> is_double (number_of_int 12)
   \<and> is_double (number_of_int 15)
   \<and> lt (number_of_int 10) (number_of_int 15) \<and> lt (number_of_int 10) (number_of_int 12)
   \<and> getPositionForDirection (Some ''southwest'')
        \<lparr>plot_length = number_of_int 10, plot_width = number_of_int 10\<rparr>
        \<lparr>size_length = number_of_int 12, size_width = number_of_int 15\<rparr>
       = \<lparr>pos_x = number_of_int (- 5), pos_y = number_of_int (- 2)\<rparr>
   \<and> lt (number_of_int (- 5)) (number_of_int 0) \<and> lt (number_of_int (- 2)) (number_of_int 0)
   \<and> getPositionForDirection (Some ''northwest'')
        \<lparr>plot_length = number_of_int 50, plot_width = Fin False 8528691794332877 (- 48)\<rparr>
        \<lparr>size_length = number_of_int 12, size_width = Fin False 5685794529555251 (- 49)\<rparr>
       = \<lparr>pos_x = Fin False 1421448632388813 (- 46), pos_y = number_of_int 0\<rparr>"
  using place_table [where p = "\<lparr>plot_length = number_of_int 50, plot_width = number_of_int 30\<rparr>"
          and r = "\<lparr>size_length = number_of_int 12, size_width = number_of_int 15\<rparr>"
          and d = "''up''"]
        place_table [where p = "\<lparr>plot_length = number_of_int 50, plot_width = number_of_int 30\<rparr>"
          and r = "\<lparr>size_length = number_of_int 15, size_width = number_of_int 12\<rparr>"
          and d = "''up''"]
        place_table [where p = "\<lparr>plot_length = number_of_int 10, plot_width = number_of_int 10\<rparr>"
          and r = "\<lparr>size_length = number_of_int 12, size_width = number_of_int 15\<rparr>"
          and d = "''up''"]
        place_table [where p = "\<lparr>plot_length = number_of_int 50,
                                  plot_width = Fin False 8528691794332877 (- 48)\<rparr>"
          and r = "\<lparr>size_length = number_of_int 12,
                      size_width = Fin False 5685794529555251 (- 49)\<rparr>"
          and d = "''up''"]
  by (simp add: compass_points_def literals number_eval)

section \<open>Adding a room with an attached washroom\<close>

text \<open>
  Claim C2. In every state the form can reach (and, more generally, in every state whose
  draft type is a key of the catalog), if the draft's hasAttachedWashroom flag is true and
  the draft is not a combined living room, \<open>addRoom\<close> succeeds and appends exactly two
  rooms to the unchanged sequence: the drafted room, whose id is the decimal string of the
  room count plus one, and a room of type \<open>bathroom\<close> with id \<open><id>-washroom\<close>,
  direction \<open>northwest\<close>, the bathroom rule's default size, no preferences, and position
  (parent x + draft width, parent y), the sum being the rounded sum of doubles.
\<close>

theorem addRoom_attached_washroom:
  assumes "reachable s \<or> draft_type (newRoom s) \<in> set catalog_keys"
    and "hasAttachedWashroom (draft_preferences (newRoom s)) = Some True"
    and "\<not> (draft_type (newRoom s) = ''living_room''
            \<and> isCombined (draft_preferences (newRoom s)) = Some True)"
  shows "\<exists>r position.
     map_of VASTU_RULES (draft_type (newRoom s)) = Some r
     \<and> position =
         getPositionForDirection (Some (rule_direction r)) (plotDimensions s)
           \<lparr>size_length = draft_length (newRoom s), size_width = draft_width (newRoom s)\<rparr>
     \<and> addRoom s =
         Inr (s\<lparr>rooms := rooms s @
           [\<lparr>room_id = toString (length (rooms s) + 1),
             room_type = draft_type (newRoom s),
             room_size = \<lparr>size_length = draft_length (newRoom s),
                          size_width = draft_width (newRoom s)\<rparr>,
             room_position = position,
             room_direction = Some (rule_direction r),
             room_preferences = Some (draft_preferences (newRoom s))\<rparr>,
            \<lparr>room_id = toString (length (rooms s) + 1) @ ''-washroom'',
             room_type = ''bathroom'',
             room_size = rule_defaultSize bathroom_rule,
             room_position = \<lparr>pos_x = fadd (pos_x position) (draft_width (newRoom s)),
                              pos_y = pos_y position\<rparr>,
             room_direction = Some ''northwest'',
             room_preferences = None\<rparr>]\<rparr>)"
proof -
  from assms(1) have "draft_type (newRoom s) \<in> set catalog_keys"
    using reachable_catalog_key by blast
  then obtain r where r: "map_of VASTU_RULES (draft_type (newRoom s)) = Some r"
    using catalog_key_rule by blast
  have "index_VASTU_RULES (draft_type (newRoom s)) = Own r"
    by (rule index_Own [OF r])
  with assms(2,3) r show ?thesis
    by (auto simp: addRoom_def Let_def truthy_def)
qed

text \<open>
  The state reached by selecting \<open>bedroom\<close>, ticking the washroom box, and entering 30.3
  for the plot width and 10.1 for the room width (the doubles nearest to them): the
  bedroom goes to x = 20.200000000000003, y = 12, and its washroom to
  x = 30.300000000000004, y = 12.
\<close>

theorem addRoom_attached_washroom_witness:
  "reachable (initial\<lparr>plotDimensions :=
         \<lparr>plot_length = number_of_int 50, plot_width = Fin False 8528691794332877 (- 48)\<rparr>,
       newRoom := \<lparr>draft_type = ''bedroom'', draft_length = number_of_int 10,
         draft_width = Fin False 5685794529555251 (- 49),
         draft_preferences = \<lparr>hasAttachedWashroom = Some True, isOpen = Some False,
           isInside = Some True, isCombined = Some False\<rparr>\<rparr>\<rparr>)
   \<and> addRoom (initial\<lparr>plotDimensions :=
         \<lparr>plot_length = number_of_int 50, plot_width = Fin False 8528691794332877 (- 48)\<rparr>,
       newRoom := \<lparr>draft_type = ''bedroom'', draft_length = number_of_int 10,
         draft_width = Fin False 5685794529555251 (- 49),
         draft_preferences = \<lparr>hasAttachedWashroom = Some True, isOpen = Some False,
           isInside = Some True, isCombined = Some False\<rparr>\<rparr>\<rparr>)
     = Inr (initial\<lparr>plotDimensions :=
         \<lparr>plot_length = number_of_int 50, plot_width = Fin False 8528691794332877 (- 48)\<rparr>,
       newRoom := \<lparr>draft_type = ''bedroom'', draft_length = number_of_int 10,
         draft_width = Fin False 5685794529555251 (- 49),
         draft_preferences = \<lparr>hasAttachedWashroom = Some True, isOpen = Some False,
           isInside = Some True, isCombined = Some False\<rparr>\<rparr>,
       rooms :=
         [\<lparr>room_id = ''1'', room_type = ''bedroom'',
           room_size = \<lparr>size_length = number_of_int 10,
                        size_width = Fin False 5685794529555251 (- 49)\<rparr>,
           room_position = \<lparr>pos_x = Fin False 1421448632388813 (- 46),
                            pos_y = number_of_int 12\<rparr>,
           room_direction = Some ''west'',
           room_preferences =
             Some \<lparr>hasAttachedWashroom = Some True, isOpen = Some False,
                   isInside = Some True, isCombined = Some False\<rparr>\<rparr>,
          \<lparr>room_id = ''1-washroom'', room_type = ''bathroom'',
           room_size = \<lparr>size_length = number_of_int 5, size_width = number_of_int 5\<rparr>,
           room_position = \<lparr>pos_x = Fin False 4264345897166439 (- 47),
                            pos_y = number_of_int 12\<rparr>,
           room_direction = Some ''northwest'',
           room_preferences = None\<rparr>]\<rparr>)"
proof -
  let ?s = "initial\<lparr>plotDimensions :=
         \<lparr>plot_length = number_of_int 50, plot_width = Fin False 8528691794332877 (- 48)\<rparr>,
       newRoom := \<lparr>draft_type = ''bedroom'', draft_length = number_of_int 10,
         draft_width = Fin False 5685794529555251 (- 49),
         draft_preferences = \<lparr>hasAttachedWashroom = Some True, isOpen = Some False,
           isInside = Some True, isCombined = Some False\<rparr>\<rparr>\<rparr>"
  have run: "run [SelectType ''bedroom'', CheckWashroom True,
                  PlotWidth (Fin False 8528691794332877 (- 48)),
                  RoomWidth (Fin False 5685794529555251 (- 49))] initial = Some ?s"
    by (simp add: initial_def selector_options_def handleRoomTypeChange_def
          index_VASTU_RULES_def catalog_defs chain_def nullish_def declares_def
          setPlotDimensions_def bitlen_eval)
  have reach: "reachable ?s"
    by (rule run_reachable [OF reachable.start run])
  have rule: "map_of VASTU_RULES ''bedroom'' = Some bedroom_rule"
    by (simp add: VASTU_RULES_def)
  from addRoom_attached_washroom [of ?s] reach rule show ?thesis
    by (simp add: initial_def bedroom_rule_def bathroom_rule_def getPositionForDirection_def
          toString.simps digit_def number_eval)
qed

section \<open>The combined living room\<close>

text \<open>
  Claim C3. Whenever the draft's type is \<open>living_room\<close> and its isCombined flag is true,
  \<open>addRoom\<close> appends exactly one room: type \<open>common_area\<close>, direction \<open>north\<close>, the
  common-area rule's default size 20 by 15, and preferences holding isCombined = true only.
  No living room and no washroom are appended, whatever hasAttachedWashroom says. The
  appended room is a function of the room count and the plot alone: neither the draft's
  length and width nor its other flags occur in it (its position is the north placement,
  which reads the plot width only).
\<close>

theorem addRoom_combined_living_room:
  assumes "draft_type (newRoom s) = ''living_room''"
    and "isCombined (draft_preferences (newRoom s)) = Some True"
  shows "addRoom s =
     Inr (s\<lparr>rooms := rooms s @
       [\<lparr>room_id = toString (length (rooms s) + 1),
         room_type = ''common_area'',
         room_size = \<lparr>size_length = number_of_int 20, size_width = number_of_int 15\<rparr>,
         room_position = \<lparr>pos_x = Math_floor (fdiv (plot_width (plotDimensions s)) (number_of_int 4)), pos_y = number_of_int 0\<rparr>,
         room_direction = Some ''north'',
         room_preferences =
           Some \<lparr>hasAttachedWashroom = None, isOpen = None, isInside = None,
                 isCombined = Some True\<rparr>\<rparr>]\<rparr>)
     \<and> rule_defaultSize common_area_rule = \<lparr>size_length = number_of_int 20, size_width = number_of_int 15\<rparr>"
proof -
  have "index_VASTU_RULES ''living_room'' = Own living_room_rule"
    by (simp add: index_VASTU_RULES_def VASTU_RULES_def)
  with assms show ?thesis
    by (simp add: addRoom_def Let_def truthy_def living_room_rule_def common_area_rule_def
          no_flags_def getPositionForDirection_def)
qed

text \<open>A 3 by 4 living-room draft with both the combined and the washroom flag set.\<close>

theorem addRoom_combined_living_room_witness:
  "addRoom (initial\<lparr>newRoom :=
       \<lparr>draft_type = ''living_room'', draft_length = number_of_int 3, draft_width = number_of_int 4,
        draft_preferences = \<lparr>hasAttachedWashroom = Some True, isOpen = Some False,
          isInside = Some True, isCombined = Some True\<rparr>\<rparr>\<rparr>)
   = Inr (initial\<lparr>newRoom :=
       \<lparr>draft_type = ''living_room'', draft_length = number_of_int 3, draft_width = number_of_int 4,
        draft_preferences = \<lparr>hasAttachedWashroom = Some True, isOpen = Some False,
          isInside = Some True, isCombined = Some True\<rparr>\<rparr>,
       rooms :=
         [\<lparr>room_id = ''1'', room_type = ''common_area'',
           room_size = \<lparr>size_length = number_of_int 20, size_width = number_of_int 15\<rparr>,
           room_position = \<lparr>pos_x = number_of_int 7, pos_y = number_of_int 0\<rparr>,
           room_direction = Some ''north'',
           room_preferences =
             Some \<lparr>hasAttachedWashroom = None, isOpen = None, isInside = None,
                   isCombined = Some True\<rparr>\<rparr>]\<rparr>)"
  using addRoom_combined_living_room [of "initial\<lparr>newRoom :=
       \<lparr>draft_type = ''living_room'', draft_length = number_of_int 3, draft_width = number_of_int 4,
        draft_preferences = \<lparr>hasAttachedWashroom = Some True, isOpen = Some False,
          isInside = Some True, isCombined = Some True\<rparr>\<rparr>\<rparr>"]
  by (simp add: initial_def toString.simps digit_def number_eval)

section \<open>Identifiers after a removal\<close>

text \<open>
  Claim C4 says that no two distinct parent rooms ever share an id. The program assigns
  \<open>rooms.length + 1\<close>, which repeats once the sequence has shrunk: adding twice, removing
  "1" and adding again from the initial state leaves two master bedrooms with id "3"
  (and two washrooms with id "3-washroom").
\<close>

theorem id_reused_after_removal:
  "\<exists>s. run [ClickAdd, ClickAdd, ClickRemove ''1'', ClickAdd] initial = Some s
     \<and> reachable s
     \<and> map room_id (rooms s) = [''3'', ''3-washroom'', ''3'', ''3-washroom'']
     \<and> map room_type (rooms s) = [''master_bedroom'', ''bathroom'', ''master_bedroom'', ''bathroom'']
     \<and> \<not> distinct (map room_id (rooms s))"
proof -
  have init: "initial = initial\<lparr>rooms := []\<rparr>"
    by (simp add: initial_def)
  have "\<exists>s. run [ClickAdd, ClickAdd, ClickRemove ''1'', ClickAdd] (initial\<lparr>rooms := []\<rparr>) = Some s
     \<and> map room_id (rooms s) = [''3'', ''3-washroom'', ''3'', ''3-washroom'']
     \<and> map room_type (rooms s) = [''master_bedroom'', ''bathroom'', ''master_bedroom'', ''bathroom'']"
    by (simp add: addRoom_initial_draft removeRoom_def toString_digits)
  with init obtain s where s: "run [ClickAdd, ClickAdd, ClickRemove ''1'', ClickAdd] initial = Some s"
     "map room_id (rooms s) = [''3'', ''3-washroom'', ''3'', ''3-washroom'']"
     "map room_type (rooms s) = [''master_bedroom'', ''bathroom'', ''master_bedroom'', ''bathroom'']"
    by auto
  have "reachable s"
    by (rule run_reachable [OF reachable.start s(1)])
  moreover have "\<not> distinct (map room_id (rooms s))"
    by (simp add: s(2))
  ultimately show ?thesis
    by (intro exI [of _ s] conjI) (rule s | assumption)+
qed

section \<open>Removal by prefix\<close>

text \<open>
  Claim C5. \<open>removeRoom id\<close> keeps, in order, exactly the rooms whose id does not have
  \<open>id\<close> as a prefix, deletes all the others, and leaves the plot and the draft alone.
\<close>

theorem removeRoom_prefix:
  "rooms (removeRoom i s) = filter (\<lambda>room. \<not> prefix i (room_id room)) (rooms s)
   \<and> plotDimensions (removeRoom i s) = plotDimensions s
   \<and> newRoom (removeRoom i s) = newRoom s"
  by (simp add: removeRoom_def startsWith_prefix)

text \<open>
  Removing "1" from rooms with ids "1", "1-washroom", "3" and "10" leaves "3": the
  washroom goes with its parent, and so does the unrelated room "10".
\<close>

theorem removeRoom_prefix_witness:
  "map room_id (rooms (removeRoom ''1''
      (initial\<lparr>rooms :=
         [\<lparr>room_id = ''1'', room_type = ''master_bedroom'',
           room_size = \<lparr>size_length = number_of_int 12, size_width = number_of_int 15\<rparr>,
           room_position = \<lparr>pos_x = number_of_int 15, pos_y = number_of_int 38\<rparr>,
           room_direction = Some ''southwest'', room_preferences = None\<rparr>,
          \<lparr>room_id = ''1-washroom'', room_type = ''bathroom'',
           room_size = \<lparr>size_length = number_of_int 5, size_width = number_of_int 5\<rparr>,
           room_position = \<lparr>pos_x = number_of_int 30, pos_y = number_of_int 38\<rparr>,
           room_direction = Some ''northwest'', room_preferences = None\<rparr>,
          \<lparr>room_id = ''3'', room_type = ''kitchen'',
           room_size = \<lparr>size_length = number_of_int 8, size_width = number_of_int 10\<rparr>,
           room_position = \<lparr>pos_x = number_of_int 0, pos_y = number_of_int 42\<rparr>,
           room_direction = Some ''southeast'', room_preferences = None\<rparr>,
          \<lparr>room_id = ''10'', room_type = ''pooja_room'',
           room_size = \<lparr>size_length = number_of_int 6, size_width = number_of_int 6\<rparr>,
           room_position = \<lparr>pos_x = number_of_int 0, pos_y = number_of_int 0\<rparr>,
           room_direction = Some ''northeast'', room_preferences = None\<rparr>]\<rparr>)))
   = [''3'']"
  using removeRoom_prefix [of "''1''" "initial\<lparr>rooms :=
         [\<lparr>room_id = ''1'', room_type = ''master_bedroom'',
           room_size = \<lparr>size_length = number_of_int 12, size_width = number_of_int 15\<rparr>,
           room_position = \<lparr>pos_x = number_of_int 15, pos_y = number_of_int 38\<rparr>,
           room_direction = Some ''southwest'', room_preferences = None\<rparr>,
          \<lparr>room_id = ''1-washroom'', room_type = ''bathroom'',
           room_size = \<lparr>size_length = number_of_int 5, size_width = number_of_int 5\<rparr>,
           room_position = \<lparr>pos_x = number_of_int 30, pos_y = number_of_int 38\<rparr>,
           room_direction = Some ''northwest'', room_preferences = None\<rparr>,
          \<lparr>room_id = ''3'', room_type = ''kitchen'',
           room_size = \<lparr>size_length = number_of_int 8, size_width = number_of_int 10\<rparr>,
           room_position = \<lparr>pos_x = number_of_int 0, pos_y = number_of_int 42\<rparr>,
           room_direction = Some ''southeast'', room_preferences = None\<rparr>,
          \<lparr>room_id = ''10'', room_type = ''pooja_room'',
           room_size = \<lparr>size_length = number_of_int 6, size_width = number_of_int 6\<rparr>,
           room_position = \<lparr>pos_x = number_of_int 0, pos_y = number_of_int 0\<rparr>,
           room_direction = Some ''northeast'', room_preferences = None\<rparr>]\<rparr>"]
  by simp

section \<open>Selecting a room type\<close>

text \<open>
  Claim C6. For every key of the catalog, \<open>handleRoomTypeChange\<close> succeeds and sets the
  draft's type to that key, its length and width to the rule's default size, and each of
  the four flags to the value the rule declares, where a flag the rule does not declare
  becomes hasAttachedWashroom = false, isOpen = false, isInside = true,
  isCombined = false. Nothing else of the state changes.
\<close>

theorem handleRoomTypeChange_defaults:
  assumes "t \<in> set catalog_keys"
  shows "\<exists>r. map_of VASTU_RULES t = Some r
    \<and> handleRoomTypeChange t s =
        Inr (s\<lparr>newRoom :=
          \<lparr>draft_type = t,
           draft_length = size_length (rule_defaultSize r),
           draft_width = size_width (rule_defaultSize r),
           draft_preferences =
             \<lparr>hasAttachedWashroom =
                Some (case rule_preferences r of None \<Rightarrow> False
                      | Some p \<Rightarrow> (case hasAttachedWashroom p of None \<Rightarrow> False | Some b \<Rightarrow> b)),
              isOpen =
                Some (case rule_preferences r of None \<Rightarrow> False
                      | Some p \<Rightarrow> (case isOpen p of None \<Rightarrow> False | Some b \<Rightarrow> b)),
              isInside =
                Some (case rule_preferences r of None \<Rightarrow> True
                      | Some p \<Rightarrow> (case isInside p of None \<Rightarrow> True | Some b \<Rightarrow> b)),
              isCombined =
                Some (case rule_preferences r of None \<Rightarrow> False
                      | Some p \<Rightarrow> (case isCombined p of None \<Rightarrow> False | Some b \<Rightarrow> b))\<rparr>\<rparr>\<rparr>)"
proof -
  from assms obtain r where r: "map_of VASTU_RULES t = Some r"
    using catalog_key_rule by blast
  show ?thesis
    using r handleRoomTypeChange_Own [OF r, of s]
    by (simp add: nullish_def chain_def split: option.splits)
qed

text \<open>
  A rule with no preferences, a rule declaring isCombined only, and a rule declaring
  hasAttachedWashroom = true selected over a draft whose flags were all different.
\<close>

theorem handleRoomTypeChange_defaults_witness:
  "''master_bedroom'' \<in> set catalog_keys
   \<and> ''pooja_room'' \<in> set catalog_keys
   \<and> ''living_room'' \<in> set catalog_keys
   \<and> handleRoomTypeChange ''pooja_room'' initial =
       Inr (initial\<lparr>newRoom :=
         \<lparr>draft_type = ''pooja_room'', draft_length = number_of_int 6, draft_width = number_of_int 6,
          draft_preferences = \<lparr>hasAttachedWashroom = Some False, isOpen = Some False,
            isInside = Some True, isCombined = Some False\<rparr>\<rparr>\<rparr>)
   \<and> handleRoomTypeChange ''living_room'' initial =
       Inr (initial\<lparr>newRoom :=
         \<lparr>draft_type = ''living_room'', draft_length = number_of_int 15, draft_width = number_of_int 12,
          draft_preferences = \<lparr>hasAttachedWashroom = Some False, isOpen = Some False,
            isInside = Some True, isCombined = Some False\<rparr>\<rparr>\<rparr>)
   \<and> handleRoomTypeChange ''master_bedroom''
         (initial\<lparr>newRoom :=
           \<lparr>draft_type = ''living_room'', draft_length = number_of_int 3, draft_width = number_of_int 4,
            draft_preferences = \<lparr>hasAttachedWashroom = Some False, isOpen = Some True,
              isInside = Some False, isCombined = Some True\<rparr>\<rparr>\<rparr>) =
       Inr (initial\<lparr>newRoom :=
         \<lparr>draft_type = ''master_bedroom'', draft_length = number_of_int 12, draft_width = number_of_int 15,
          draft_preferences = \<lparr>hasAttachedWashroom = Some True, isOpen = Some False,
            isInside = Some True, isCombined = Some False\<rparr>\<rparr>\<rparr>)"
proof -
  have keys: "''master_bedroom'' \<in> set catalog_keys" "''pooja_room'' \<in> set catalog_keys"
    "''living_room'' \<in> set catalog_keys"
    by (simp_all add: catalog_keys_eq)
  have a: "handleRoomTypeChange ''pooja_room'' initial =
       Inr (initial\<lparr>newRoom :=
         \<lparr>draft_type = ''pooja_room'', draft_length = number_of_int 6, draft_width = number_of_int 6,
          draft_preferences = \<lparr>hasAttachedWashroom = Some False, isOpen = Some False,
            isInside = Some True, isCombined = Some False\<rparr>\<rparr>\<rparr>)"
    using handleRoomTypeChange_defaults [OF keys(2), of initial]
    by (simp add: own_rules pooja_room_rule_def)
  have b: "handleRoomTypeChange ''living_room'' initial =
       Inr (initial\<lparr>newRoom :=
         \<lparr>draft_type = ''living_room'', draft_length = number_of_int 15, draft_width = number_of_int 12,
          draft_preferences = \<lparr>hasAttachedWashroom = Some False, isOpen = Some False,
            isInside = Some True, isCombined = Some False\<rparr>\<rparr>\<rparr>)"
    using handleRoomTypeChange_defaults [OF keys(3), of initial]
    by (simp add: own_rules living_room_rule_def no_flags_def)
  have c: "handleRoomTypeChange ''master_bedroom''
         (initial\<lparr>newRoom :=
           \<lparr>draft_type = ''living_room'', draft_length = number_of_int 3, draft_width = number_of_int 4,
            draft_preferences = \<lparr>hasAttachedWashroom = Some False, isOpen = Some True,
              isInside = Some False, isCombined = Some True\<rparr>\<rparr>\<rparr>) =
       Inr (initial\<lparr>newRoom :=
         \<lparr>draft_type = ''master_bedroom'', draft_length = number_of_int 12, draft_width = number_of_int 15,
          draft_preferences = \<lparr>hasAttachedWashroom = Some True, isOpen = Some False,
            isInside = Some True, isCombined = Some False\<rparr>\<rparr>\<rparr>)"
    using handleRoomTypeChange_defaults [OF keys(1), of "initial\<lparr>newRoom :=
           \<lparr>draft_type = ''living_room'', draft_length = number_of_int 3, draft_width = number_of_int 4,
            draft_preferences = \<lparr>hasAttachedWashroom = Some False, isOpen = Some True,
              isInside = Some False, isCombined = Some True\<rparr>\<rparr>\<rparr>"]
    by (simp add: own_rules master_bedroom_rule_def no_flags_def)
  show ?thesis
    by (intro conjI) (rule keys a b c)+
qed

section \<open>The catalog lookup\<close>

text \<open>
  Claim C7 says that looking up a type outside the nine catalog keys fails with an
  UnknownRoomType error. The program has no such error: the index expression yields
  \<open>undefined\<close> for "garage" without failing, and the operations that then read the rule
  throw a TypeError.
\<close>

theorem unknown_type_is_TypeError:
  "''garage'' \<notin> set catalog_keys
   \<and> index_VASTU_RULES ''garage'' = Undefined
   \<and> handleRoomTypeChange ''garage'' initial = Inl TypeError
   \<and> handleRoomTypeChange ''garage'' initial \<noteq> Inl UnknownRoomType
   \<and> addRoom (initial\<lparr>newRoom := (newRoom initial)\<lparr>draft_type := ''garage''\<rparr>\<rparr>) = Inl TypeError
   \<and> addRoom (initial\<lparr>newRoom := (newRoom initial)\<lparr>draft_type := ''garage''\<rparr>\<rparr>)
       \<noteq> Inl UnknownRoomType"
proof -
  have key: "''garage'' \<notin> set catalog_keys"
    by (simp add: catalog_keys_eq)
  have idx: "index_VASTU_RULES ''garage'' = Undefined"
    by (simp add: index_VASTU_RULES_def VASTU_RULES_def Object_prototype_keys_def)
  show ?thesis
    by (simp add: key idx handleRoomTypeChange_def addRoom_def Let_def)
qed

text \<open>
  Claim C7, amended. The catalog has exactly the nine keys listed. For each of them the
  index expression returns that key's rule and every read of the rule succeeds. For every
  other identifier that is not a property name inherited from \<open>Object.prototype\<close>, the
  index expression yields \<open>undefined\<close>, and both \<open>handleRoomTypeChange\<close> on that
  identifier and \<open>addRoom\<close> on a draft of that type fail with a TypeError. No operation
  ever fails with UnknownRoomType.
\<close>

theorem catalog_lookup:
  "catalog_keys = [''master_bedroom'', ''bedroom'', ''kitchen'', ''pooja_room'',
     ''bathroom'', ''living_room'', ''dining_room'', ''staircase'', ''common_area'']
   \<and> (t \<in> set catalog_keys \<longrightarrow>
        (\<exists>r. map_of VASTU_RULES t = Some r \<and> index_VASTU_RULES t = Own r
           \<and> get_direction (index_VASTU_RULES t) = Inr (Some (rule_direction r))
           \<and> get_defaultSize (index_VASTU_RULES t) = Inr (Some (rule_defaultSize r))
           \<and> get_preferences (index_VASTU_RULES t) = Inr (rule_preferences r)))
   \<and> (t \<notin> set catalog_keys \<and> t \<notin> set Object_prototype_keys \<longrightarrow>
        index_VASTU_RULES t = Undefined
        \<and> handleRoomTypeChange t s = Inl TypeError
        \<and> addRoom (s\<lparr>newRoom := (newRoom s)\<lparr>draft_type := t\<rparr>\<rparr>) = Inl TypeError)
   \<and> handleRoomTypeChange t s \<noteq> Inl UnknownRoomType
   \<and> addRoom s \<noteq> Inl UnknownRoomType"
proof -
  have own: "t \<in> set catalog_keys \<longrightarrow>
        (\<exists>r. map_of VASTU_RULES t = Some r \<and> index_VASTU_RULES t = Own r
           \<and> get_direction (index_VASTU_RULES t) = Inr (Some (rule_direction r))
           \<and> get_defaultSize (index_VASTU_RULES t) = Inr (Some (rule_defaultSize r))
           \<and> get_preferences (index_VASTU_RULES t) = Inr (rule_preferences r))"
  proof
    assume "t \<in> set catalog_keys"
    then obtain r where r: "map_of VASTU_RULES t = Some r"
      using catalog_key_rule by blast
    then show "\<exists>r. map_of VASTU_RULES t = Some r \<and> index_VASTU_RULES t = Own r
           \<and> get_direction (index_VASTU_RULES t) = Inr (Some (rule_direction r))
           \<and> get_defaultSize (index_VASTU_RULES t) = Inr (Some (rule_defaultSize r))
           \<and> get_preferences (index_VASTU_RULES t) = Inr (rule_preferences r)"
      by (simp add: index_Own)
  qed
  have other: "t \<notin> set catalog_keys \<and> t \<notin> set Object_prototype_keys \<longrightarrow>
        index_VASTU_RULES t = Undefined
        \<and> handleRoomTypeChange t s = Inl TypeError
        \<and> addRoom (s\<lparr>newRoom := (newRoom s)\<lparr>draft_type := t\<rparr>\<rparr>) = Inl TypeError"
  proof
    assume a: "t \<notin> set catalog_keys \<and> t \<notin> set Object_prototype_keys"
    then have "index_VASTU_RULES t = Undefined"
      by (simp add: index_VASTU_RULES_def not_catalog_key)
    then show "index_VASTU_RULES t = Undefined
        \<and> handleRoomTypeChange t s = Inl TypeError
        \<and> addRoom (s\<lparr>newRoom := (newRoom s)\<lparr>draft_type := t\<rparr>\<rparr>) = Inl TypeError"
      by (simp add: handleRoomTypeChange_def addRoom_def Let_def)
  qed
  show ?thesis
    by (intro conjI) (rule catalog_keys_eq own other handleRoomTypeChange_error addRoom_error)+
qed

theorem catalog_lookup_witness:
  "''kitchen'' \<in> set catalog_keys
   \<and> index_VASTU_RULES ''kitchen'' =
       Own \<lparr>rule_direction = ''southeast'',
            rule_defaultSize = \<lparr>size_length = number_of_int 8, size_width = number_of_int 10\<rparr>,
            rule_description =
              ''Kitchen should be in the Southeast direction for positive energy while cooking.'',
            rule_preferences =
              Some \<lparr>hasAttachedWashroom = None, isOpen = Some False, isInside = None,
                    isCombined = None\<rparr>\<rparr>
   \<and> ''garage'' \<notin> set catalog_keys \<and> ''garage'' \<notin> set Object_prototype_keys
   \<and> index_VASTU_RULES ''garage'' = Undefined
   \<and> handleRoomTypeChange ''garage'' initial = Inl TypeError
   \<and> addRoom (initial\<lparr>newRoom := (newRoom initial)\<lparr>draft_type := ''garage''\<rparr>\<rparr>) = Inl TypeError"
proof -
  have k: "''kitchen'' \<in> set catalog_keys"
    by (simp add: catalog_keys_eq)
  have g: "''garage'' \<notin> set catalog_keys \<and> ''garage'' \<notin> set Object_prototype_keys"
    by (simp add: catalog_keys_eq Object_prototype_keys_def)
  have rule: "map_of VASTU_RULES ''kitchen'' = Some kitchen_rule"
    by (simp add: VASTU_RULES_def)
  have "\<exists>r. map_of VASTU_RULES ''kitchen'' = Some r \<and> index_VASTU_RULES ''kitchen'' = Own r
           \<and> get_direction (index_VASTU_RULES ''kitchen'') = Inr (Some (rule_direction r))
           \<and> get_defaultSize (index_VASTU_RULES ''kitchen'') = Inr (Some (rule_defaultSize r))
           \<and> get_preferences (index_VASTU_RULES ''kitchen'') = Inr (rule_preferences r)"
    by (rule catalog_lookup [THEN conjunct2, THEN conjunct1, rule_format, OF k])
  with rule have own: "index_VASTU_RULES ''kitchen'' = Own kitchen_rule"
    by simp
  have other: "index_VASTU_RULES ''garage'' = Undefined
        \<and> handleRoomTypeChange ''garage'' initial = Inl TypeError
        \<and> addRoom (initial\<lparr>newRoom := (newRoom initial)\<lparr>draft_type := ''garage''\<rparr>\<rparr>)
            = Inl TypeError"
    by (rule catalog_lookup [THEN conjunct2, THEN conjunct2, THEN conjunct1, rule_format, OF g])
  show ?thesis
    using k g own other by (simp add: kitchen_rule_def no_flags_def)
qed

section \<open>Changing the plot\<close>

text \<open>
  Claim C8. \<open>setPlotDimensions\<close> stores the new dimensions and changes nothing else: the
  room sequence, hence every room's position and size, and the draft are as before. The
  two plot fields of the form call it with one component replaced.
\<close>

theorem setPlotDimensions_frame:
  "plotDimensions (setPlotDimensions next s) = next
   \<and> rooms (setPlotDimensions next s) = rooms s
   \<and> newRoom (setPlotDimensions next s) = newRoom s
   \<and> map room_position (rooms (setPlotDimensions next s)) = map room_position (rooms s)
   \<and> map room_size (rooms (setPlotDimensions next s)) = map room_size (rooms s)
   \<and> handle (PlotLength v) s = Inr (s\<lparr>plotDimensions := (plotDimensions s)\<lparr>plot_length := v\<rparr>\<rparr>)
   \<and> handle (PlotWidth v) s = Inr (s\<lparr>plotDimensions := (plotDimensions s)\<lparr>plot_width := v\<rparr>\<rparr>)"
  by (simp add: setPlotDimensions_def)

text \<open>
  A master bedroom placed at (15, 38) stays there when the plot shrinks to 10 by 10.
\<close>

theorem setPlotDimensions_frame_witness:
  "rooms (setPlotDimensions \<lparr>plot_length = number_of_int 10, plot_width = number_of_int 10\<rparr>
      (initial\<lparr>rooms :=
         [\<lparr>room_id = ''1'', room_type = ''master_bedroom'',
           room_size = \<lparr>size_length = number_of_int 12, size_width = number_of_int 15\<rparr>,
           room_position = \<lparr>pos_x = number_of_int 15, pos_y = number_of_int 38\<rparr>,
           room_direction = Some ''southwest'', room_preferences = None\<rparr>]\<rparr>))
   = [\<lparr>room_id = ''1'', room_type = ''master_bedroom'',
       room_size = \<lparr>size_length = number_of_int 12, size_width = number_of_int 15\<rparr>,
       room_position = \<lparr>pos_x = number_of_int 15, pos_y = number_of_int 38\<rparr>,
       room_direction = Some ''southwest'', room_preferences = None\<rparr>]
   \<and> plotDimensions (setPlotDimensions \<lparr>plot_length = number_of_int 10, plot_width = number_of_int 10\<rparr>
      (initial\<lparr>rooms :=
         [\<lparr>room_id = ''1'', room_type = ''master_bedroom'',
           room_size = \<lparr>size_length = number_of_int 12, size_width = number_of_int 15\<rparr>,
           room_position = \<lparr>pos_x = number_of_int 15, pos_y = number_of_int 38\<rparr>,
           room_direction = Some ''southwest'', room_preferences = None\<rparr>]\<rparr>))
     = \<lparr>plot_length = number_of_int 10, plot_width = number_of_int 10\<rparr>"
  using setPlotDimensions_frame [of "\<lparr>plot_length = number_of_int 10, plot_width = number_of_int 10\<rparr>"
      "initial\<lparr>rooms :=
         [\<lparr>room_id = ''1'', room_type = ''master_bedroom'',
           room_size = \<lparr>size_length = number_of_int 12, size_width = number_of_int 15\<rparr>,
           room_position = \<lparr>pos_x = number_of_int 15, pos_y = number_of_int 38\<rparr>,
           room_direction = Some ''southwest'', room_preferences = None\<rparr>]\<rparr>"]
  by simp

section \<open>The combined dining room\<close>

text \<open>
  Claim C9. Only \<open>living_room\<close> triggers the substitution. In every state the form can
  reach (and in every state whose draft does not ask for a washroom), \<open>addRoom\<close> on a draft
  of type \<open>dining_room\<close> with isCombined = true appends exactly one room: an ordinary
  \<open>dining_room\<close> with the draft's size and preferences (isCombined = true among them),
  direction \<open>east\<close>, placed by the placement function for the dining-room rule's
  direction, that is at (0, floor (plot length / 4)). The form does render the combined
  checkbox for \<open>dining_room\<close>.
\<close>

theorem addRoom_combined_dining_room:
  assumes "reachable s \<or> hasAttachedWashroom (draft_preferences (newRoom s)) \<noteq> Some True"
    and "draft_type (newRoom s) = ''dining_room''"
    and "isCombined (draft_preferences (newRoom s)) = Some True"
  shows "addRoom s =
     Inr (s\<lparr>rooms := rooms s @
       [\<lparr>room_id = toString (length (rooms s) + 1),
         room_type = ''dining_room'',
         room_size = \<lparr>size_length = draft_length (newRoom s),
                      size_width = draft_width (newRoom s)\<rparr>,
         room_position =
           getPositionForDirection (Some (rule_direction dining_room_rule)) (plotDimensions s)
             \<lparr>size_length = draft_length (newRoom s), size_width = draft_width (newRoom s)\<rparr>,
         room_direction = Some ''east'',
         room_preferences = Some (draft_preferences (newRoom s))\<rparr>]\<rparr>)
     \<and> getPositionForDirection (Some (rule_direction dining_room_rule)) (plotDimensions s)
           \<lparr>size_length = draft_length (newRoom s), size_width = draft_width (newRoom s)\<rparr>
         = \<lparr>pos_x = number_of_int 0, pos_y = Math_floor (fdiv (plot_length (plotDimensions s)) (number_of_int 4))\<rparr>
     \<and> map_of VASTU_RULES ''dining_room'' = Some dining_room_rule"
proof -
  have no_washroom: "hasAttachedWashroom (draft_preferences (newRoom s)) \<noteq> Some True"
    using assms(1,2) reachable_draft [of s] not_declared_washroom by auto
  have "index_VASTU_RULES ''dining_room'' = Own dining_room_rule"
    by (simp add: index_VASTU_RULES_def VASTU_RULES_def)
  with assms(2,3) no_washroom show ?thesis
    by (simp add: addRoom_def Let_def truthy_def dining_room_rule_def
          getPositionForDirection_def VASTU_RULES_def)
qed

text \<open>The state reached by selecting \<open>dining_room\<close> and ticking the combined box.\<close>

theorem addRoom_combined_dining_room_witness:
  "reachable (initial\<lparr>newRoom :=
       \<lparr>draft_type = ''dining_room'', draft_length = number_of_int 10, draft_width = number_of_int 12,
        draft_preferences = \<lparr>hasAttachedWashroom = Some False, isOpen = Some False,
          isInside = Some True, isCombined = Some True\<rparr>\<rparr>\<rparr>)
   \<and> addRoom (initial\<lparr>newRoom :=
       \<lparr>draft_type = ''dining_room'', draft_length = number_of_int 10, draft_width = number_of_int 12,
        draft_preferences = \<lparr>hasAttachedWashroom = Some False, isOpen = Some False,
          isInside = Some True, isCombined = Some True\<rparr>\<rparr>\<rparr>)
   = Inr (initial\<lparr>newRoom :=
       \<lparr>draft_type = ''dining_room'', draft_length = number_of_int 10, draft_width = number_of_int 12,
        draft_preferences = \<lparr>hasAttachedWashroom = Some False, isOpen = Some False,
          isInside = Some True, isCombined = Some True\<rparr>\<rparr>,
       rooms :=
         [\<lparr>room_id = ''1'', room_type = ''dining_room'',
           room_size = \<lparr>size_length = number_of_int 10, size_width = number_of_int 12\<rparr>,
           room_position = \<lparr>pos_x = number_of_int 0, pos_y = number_of_int 12\<rparr>,
           room_direction = Some ''east'',
           room_preferences =
             Some \<lparr>hasAttachedWashroom = Some False, isOpen = Some False,
                   isInside = Some True, isCombined = Some True\<rparr>\<rparr>]\<rparr>)"
proof -
  let ?s = "initial\<lparr>newRoom :=
       \<lparr>draft_type = ''dining_room'', draft_length = number_of_int 10, draft_width = number_of_int 12,
        draft_preferences = \<lparr>hasAttachedWashroom = Some False, isOpen = Some False,
          isInside = Some True, isCombined = Some True\<rparr>\<rparr>\<rparr>"
  have run: "run [SelectType ''dining_room'', CheckCombined True] initial = Some ?s"
    by (simp add: initial_def selector_options_def handleRoomTypeChange_def
          index_VASTU_RULES_def catalog_defs chain_def nullish_def)
  have reach: "reachable ?s"
    by (rule run_reachable [OF reachable.start run])
  from addRoom_combined_dining_room [of ?s] reach show ?thesis
    by (simp add: initial_def toString.simps digit_def number_eval)
qed

section \<open>The first add\<close>

text \<open>
  Claim C10. The draft starts as type \<open>master_bedroom\<close>, 12 by 15, with the flags
  hasAttachedWashroom = true, isOpen = false, isInside = true, isCombined = false, and
  the registry starts empty. \<open>addRoom\<close> in that state succeeds and leaves exactly two
  rooms: the master bedroom with id "1" and a bathroom with id "1-washroom".
\<close>

theorem initial_addRoom:
  "newRoom initial =
     \<lparr>draft_type = ''master_bedroom'', draft_length = number_of_int 12, draft_width = number_of_int 15,
      draft_preferences =
        \<lparr>hasAttachedWashroom = Some True, isOpen = Some False,
         isInside = Some True, isCombined = Some False\<rparr>\<rparr>
   \<and> rooms initial = []
   \<and> addRoom initial =
       Inr (initial\<lparr>rooms :=
         [\<lparr>room_id = ''1'', room_type = ''master_bedroom'',
           room_size = \<lparr>size_length = number_of_int 12, size_width = number_of_int 15\<rparr>,
           room_position = \<lparr>pos_x = number_of_int 15, pos_y = number_of_int 38\<rparr>,
           room_direction = Some ''southwest'',
           room_preferences =
             Some \<lparr>hasAttachedWashroom = Some True, isOpen = Some False,
                   isInside = Some True, isCombined = Some False\<rparr>\<rparr>,
          \<lparr>room_id = ''1-washroom'', room_type = ''bathroom'',
           room_size = \<lparr>size_length = number_of_int 5, size_width = number_of_int 5\<rparr>,
           room_position = \<lparr>pos_x = number_of_int 30, pos_y = number_of_int 38\<rparr>,
           room_direction = Some ''northwest'',
           room_preferences = None\<rparr>]\<rparr>)"
  by (simp add: initial_def addRoom_def index_VASTU_RULES_def catalog_defs
        getPositionForDirection_def truthy_def toString.simps digit_def number_eval)

end
